theory Spec2Isabelle
  imports Main "HOL-Library.Word"
begin

unbundle bit_operations_syntax

section \<open>Status and judge mode (models.go)\<close>

text \<open>
  \<^verbatim>\<open>type Status uint16\<close>, with the thirteen constants numbered by \<^verbatim>\<open>iota\<close> in the
  order of the source. Go's \<^verbatim>\<open>int\<close> is the 64-bit signed integer of the platforms the
  runner supports; it is a \<open>64 word\<close> read with \<open>sint\<close>.
\<close>

type_synonym Status = "16 word"

definition ST_WAITING :: Status where "ST_WAITING = 0"
definition ST_RUNNING :: Status where "ST_RUNNING = 1"
definition ST_CANCELLED :: Status where "ST_CANCELLED = 2"
definition ST_ACCEPTED :: Status where "ST_ACCEPTED = 3"
definition ST_COMPILATION_ERROR :: Status where "ST_COMPILATION_ERROR = 4"
definition ST_COMPILATION_SUCCESS :: Status where "ST_COMPILATION_SUCCESS = 5"
definition ST_WRONG_ANSWER :: Status where "ST_WRONG_ANSWER = 6"
definition ST_RUNTIME_ERROR :: Status where "ST_RUNTIME_ERROR = 7"
definition ST_HOSTILE_CODE :: Status where "ST_HOSTILE_CODE = 8"
definition ST_TIME_LIMIT_EXCEEDED :: Status where "ST_TIME_LIMIT_EXCEEDED = 9"
definition ST_MEMORY_LIMIT_EXCEEDED :: Status where "ST_MEMORY_LIMIT_EXCEEDED = 10"
definition ST_SYSTEM_ERROR :: Status where "ST_SYSTEM_ERROR = 11"
definition ST_SKIPPED :: Status where "ST_SKIPPED = 12"
definition ST_MAX :: Status where "ST_MAX = ST_SKIPPED"

lemmas ST_defs =
  ST_WAITING_def ST_RUNNING_def ST_CANCELLED_def ST_ACCEPTED_def ST_COMPILATION_ERROR_def
  ST_COMPILATION_SUCCESS_def ST_WRONG_ANSWER_def ST_RUNTIME_ERROR_def ST_HOSTILE_CODE_def
  ST_TIME_LIMIT_EXCEEDED_def ST_MEMORY_LIMIT_EXCEEDED_def ST_SYSTEM_ERROR_def ST_SKIPPED_def
  ST_MAX_def

type_synonym JudgeMode = "16 word"

definition ModeBits :: "JudgeMode \<Rightarrow> JudgeMode" where
  "ModeBits m = m AND 0x00ff"

definition JudgerId :: "JudgeMode \<Rightarrow> 64 word" where
  "JudgerId m = ucast (drop_bit 8 (m AND 0xff00))"

definition J_LAX :: JudgeMode where "J_LAX = 0"
definition J_STRICT :: JudgeMode where "J_STRICT = 1"
definition J_SPECIAL :: JudgeMode where "J_SPECIAL = 2"

text \<open>\<^verbatim>\<open>JudgeMode(judger << 8) + J_SPECIAL\<close>: the shift is on the 64-bit \<^verbatim>\<open>int\<close>, the
  conversion keeps its low 16 bits, the addition is on \<^verbatim>\<open>uint16\<close>.\<close>

definition MakeSpecialJudgeMode :: "64 word \<Rightarrow> JudgeMode" where
  "MakeSpecialJudgeMode judger = ucast (push_bit 8 judger) + J_SPECIAL"

section \<open>Judge mode round trip\<close>

lemma small_judger:
  assumes "0 \<le> sint (judger :: 64 word)" "sint judger \<le> 255"
  shows "take_bit 8 judger = judger"
proof -
  define k where "k = sint judger"
  have j: "judger = word_of_int k" by (simp add: k_def)
  have "take_bit 8 k = k"
    using assms by (intro take_bit_int_eq_self) (simp_all add: k_def)
  then have "take_bit 8 (word_of_int k :: 64 word) = word_of_int k"
    by (metis take_bit_of_int)
  then show ?thesis by (simp add: j)
qed

lemma MakeSpecialJudgeMode_or:
  "MakeSpecialJudgeMode judger = push_bit 8 (ucast judger) OR 2"
proof -
  have a: "(ucast (push_bit 8 judger) :: 16 word) = push_bit 8 (ucast judger)"
    by (rule bit_word_eqI) (auto simp: bit_simps)
  have "push_bit 8 (ucast judger :: 16 word) + 2 = push_bit 8 (ucast judger) OR 2"
    by (rule disjunctive_add) (auto simp: bit_simps)
  then show ?thesis by (simp add: MakeSpecialJudgeMode_def J_SPECIAL_def a)
qed

lemma low_byte_mask: "(0xff :: 16 word) = mask 8"
  by (simp add: mask_eq_exp_minus_1)

lemma high_byte_mask: "(0xff00 :: 16 word) = push_bit 8 (mask 8)"
  by (simp add: mask_eq_exp_minus_1)

lemma ModeBits_Make: "ModeBits (MakeSpecialJudgeMode judger) = J_SPECIAL"
  unfolding MakeSpecialJudgeMode_or ModeBits_def J_SPECIAL_def low_byte_mask
  by (rule bit_word_eqI) (auto simp: bit_simps)

lemma JudgerId_Make:
  assumes "take_bit 8 (judger :: 64 word) = judger"
  shows "JudgerId (MakeSpecialJudgeMode judger) = judger"
proof -
  have b: "n < 8" if "bit judger n" for n
    using that assms by (metis bit_take_bit_iff)
  show ?thesis
    unfolding JudgerId_def MakeSpecialJudgeMode_or high_byte_mask
    by (rule bit_word_eqI) (auto simp: bit_simps dest: b)
qed

text \<open>
  Claim C8. For every judger id with \<open>0 \<le> id \<le> 255\<close>, the mode built by
  \<open>MakeSpecialJudgeMode id\<close> has mode bits \<open>J_SPECIAL\<close> and judger id \<open>id\<close>.
\<close>

theorem MakeSpecialJudgeMode_roundtrip:
  assumes "0 \<le> sint judger" and "sint judger \<le> 255"
  shows "ModeBits (MakeSpecialJudgeMode judger) = J_SPECIAL \<and>
         JudgerId (MakeSpecialJudgeMode judger) = judger"
  using assms by (simp add: ModeBits_Make JudgerId_Make small_judger)

theorem MakeSpecialJudgeMode_roundtrip_witness:
  "ModeBits (MakeSpecialJudgeMode 200) = J_SPECIAL \<and> JudgerId (MakeSpecialJudgeMode 200) = 200
   \<and> MakeSpecialJudgeMode 200 = 0xC802"
proof -
  have "ModeBits (MakeSpecialJudgeMode 200) = J_SPECIAL \<and>
        JudgerId (MakeSpecialJudgeMode 200) = 200"
    by (rule MakeSpecialJudgeMode_roundtrip) simp_all
  moreover have "MakeSpecialJudgeMode 200 = 0xC802"
    by (simp add: MakeSpecialJudgeMode_def J_SPECIAL_def)
  ultimately show ?thesis by simp
qed

end
